theory Spec2Isabelle
  imports Main "HOL-Library.Word"
begin

unbundle bit_operations_syntax

section \<open>Bytes, errors and byte readers\<close>

type_synonym byte = "8 word"
type_synonym bytes = "byte list"
type_synonym u64 = "64 word"

text \<open>
  Go's \<open>error\<close> values. The constructors name the errors that the modelled code creates
  itself (\<open>errors.New\<close>, \<open>fmt.Errorf\<close>) and the two errors of \<open>io.ReadFull\<close>;
  \<open>ErrExternal\<close> stands for an error handed back by a collaborator (the BLS library, a
  storage backend, the Redis client).
\<close>

datatype error =
    EOF
  | ErrUnexpectedEOF
  | ErrNoDASHeader
  | ErrHashMismatch
  | ErrTooManyKeys
  | ErrNotEnoughSigners
  | ErrBadSignature
  | ErrSeqMsgValidation error
  | ErrSigningKeyNot32BytesOfHex
  | ErrDataTooShort
  | ErrHmacMismatch
  | ErrExternal string

text \<open>
  A \<open>bytes.Reader\<close> (also behind a \<open>bufio.Reader\<close>) is the list of bytes not yet read.
  \<open>ReadByte\<close> fails with \<open>EOF\<close> on an empty stream. \<open>io.ReadFull\<close> into a buffer of
  \<open>n\<close> bytes returns at once for \<open>n = 0\<close>, fails with \<open>EOF\<close> when nothing is left and
  with \<open>ErrUnexpectedEOF\<close> when fewer than \<open>n\<close> bytes are left.
\<close>

definition ReadByte :: "bytes \<Rightarrow> error + (byte \<times> bytes)" where
  "ReadByte rd = (case rd of [] \<Rightarrow> Inl EOF | b # rest \<Rightarrow> Inr (b, rest))"

definition io_ReadFull :: "nat \<Rightarrow> bytes \<Rightarrow> error + (bytes \<times> bytes)" where
  "io_ReadFull n rd =
     (if n = 0 then Inr ([], rd)
      else if rd = [] then Inl EOF
      else if length rd < n then Inl ErrUnexpectedEOF
      else Inr (take n rd, drop n rd))"

text \<open>
  \<open>binary.BigEndian.PutUint64\<close> and \<open>binary.BigEndian.Uint64\<close>, as the Go library writes
  them: shifts and conversions to \<open>byte\<close>, shifts and bitwise or.
\<close>

definition BigEndian_PutUint64 :: "u64 \<Rightarrow> bytes" where
  "BigEndian_PutUint64 v =
     [ucast (drop_bit 56 v), ucast (drop_bit 48 v), ucast (drop_bit 40 v),
      ucast (drop_bit 32 v), ucast (drop_bit 24 v), ucast (drop_bit 16 v),
      ucast (drop_bit 8 v), ucast v]"

definition BigEndian_Uint64 :: "bytes \<Rightarrow> u64" where
  "BigEndian_Uint64 b =
     ucast (b ! 7) OR push_bit 8 (ucast (b ! 6)) OR push_bit 16 (ucast (b ! 5)) OR
     push_bit 24 (ucast (b ! 4)) OR push_bit 32 (ucast (b ! 3)) OR
     push_bit 40 (ucast (b ! 2)) OR push_bit 48 (ucast (b ! 1)) OR
     push_bit 56 (ucast (b ! 0))"

text \<open>
  The big-endian encoding in the words of the specification: the \<open>n\<close> base-256 digits of
  a number, most significant first.
\<close>

fun be_bytes :: "nat \<Rightarrow> nat \<Rightarrow> bytes" where
  "be_bytes 0 v = []"
| "be_bytes (Suc n) v = be_bytes n (v div 256) @ [of_nat (v mod 256)]"

section \<open>Collaborators outside the modelled files\<close>

text \<open>
  The header flag constants of package \<open>daprovider\<close> are declared outside the modelled
  files; they are parameters of the model.
\<close>

record daprovider =
  DASMessageHeaderFlag :: byte
  TreeDASMessageHeaderFlag :: byte

text \<open>
  Modelled from the spec: the header tests \<open>daprovider.IsDASMessageHeaderByte\<close> and
  \<open>daprovider.IsTreeDASMessageHeaderByte\<close> are missing from the modelled files. The
  specification has the leading flag byte carry "the DA header bit" and the TREE bit: a
  byte passes a test when it has every bit of the flag.
\<close>

definition hasBits :: "byte \<Rightarrow> byte \<Rightarrow> bool" where
  "hasBits checking bits = (checking AND bits = bits)"

definition IsDASMessageHeaderByte :: "daprovider \<Rightarrow> byte \<Rightarrow> bool" where
  "IsDASMessageHeaderByte dp header = hasBits header (DASMessageHeaderFlag dp)"

definition IsTreeDASMessageHeaderByte :: "daprovider \<Rightarrow> byte \<Rightarrow> bool" where
  "IsTreeDASMessageHeaderByte dp header = hasBits header (TreeDASMessageHeaderFlag dp)"

text \<open>
  Package \<open>blsSignatures\<close> is a black box: its operations are parameters, over a type
  \<open>'pk\<close> of public keys and a type \<open>'sig\<close> of signatures.
\<close>

record ('pk, 'sig) blsSignatures =
  bls_SignatureFromBytes :: "bytes \<Rightarrow> error + 'sig"
  bls_SignatureToBytes :: "'sig \<Rightarrow> bytes"
  bls_PublicKeyFromBytes :: "bytes \<Rightarrow> bool \<Rightarrow> error + 'pk"
  bls_AggregatePublicKeys :: "'pk list \<Rightarrow> 'pk"
  bls_VerifySignature :: "'sig \<Rightarrow> bytes \<Rightarrow> 'pk \<Rightarrow> error + bool"

text \<open>
  The hash functions (\<open>crypto.Keccak256Hash\<close> and package \<open>dastree\<close>) are parameters
  too. \<open>dastree_RecordHash\<close> gives the (hash, preimage) pairs that \<open>dastree.RecordHash\<close>
  hands to its recorder, in order, all of type Keccak256.
\<close>

record hashes =
  crypto_Keccak256Hash :: "bytes \<Rightarrow> bytes"
  dastree_Hash :: "bytes \<Rightarrow> bytes"
  dastree_FlatHashToTreeHash :: "bytes \<Rightarrow> bytes"
  dastree_FlatHashToTreeLeaf :: "bytes \<Rightarrow> bytes"
  dastree_RecordHash :: "bytes \<Rightarrow> (bytes \<times> bytes) list"

section \<open>The certificate codec\<close>

text \<open>
  \<open>KeysetHash\<close> and \<open>DataHash\<close> are \<open>[32]byte\<close> arrays in the source; here they are
  byte lists, and a certificate of the source is one whose two hashes have 32 bytes.
\<close>

record 'sig DataAvailabilityCertificate =
  KeysetHash :: bytes
  DataHash :: bytes
  Timeout :: u64
  SignersMask :: u64
  Sig :: 'sig
  Version :: byte

definition SerializeSignableFields :: "'sig DataAvailabilityCertificate \<Rightarrow> bytes" where
  "SerializeSignableFields c =
     (let buf = [];
          buf = buf @ DataHash c;
          intData = BigEndian_PutUint64 (Timeout c);
          buf = buf @ intData;
          buf = (if Version c \<noteq> 0 then buf @ [Version c] else buf)
      in buf)"

definition Serialize ::
  "daprovider \<Rightarrow> ('pk, 'sig) blsSignatures \<Rightarrow> 'sig DataAvailabilityCertificate \<Rightarrow> bytes" where
  "Serialize dp bls c =
     (let flags = DASMessageHeaderFlag dp;
          flags = (if Version c \<noteq> 0 then flags OR TreeDASMessageHeaderFlag dp else flags);
          buf = [];
          buf = buf @ [flags];
          buf = buf @ KeysetHash c;
          buf = buf @ SerializeSignableFields c;
          intData = BigEndian_PutUint64 (SignersMask c);
          buf = buf @ intData
      in buf @ bls_SignatureToBytes bls (Sig c))"

definition DeserializeDASCertFrom ::
  "daprovider \<Rightarrow> ('pk, 'sig) blsSignatures \<Rightarrow> bytes \<Rightarrow>
     error + 'sig DataAvailabilityCertificate" where
  "DeserializeDASCertFrom dp bls rd =
     (case ReadByte rd of
        Inl err \<Rightarrow> Inl err
      | Inr (header, r1) \<Rightarrow>
          if \<not> IsDASMessageHeaderByte dp header then Inl ErrNoDASHeader
          else
            (case io_ReadFull 32 r1 of
               Inl err \<Rightarrow> Inl err
             | Inr (keysetHash, r2) \<Rightarrow>
            (case io_ReadFull 32 r2 of
               Inl err \<Rightarrow> Inl err
             | Inr (dataHash, r3) \<Rightarrow>
            (case io_ReadFull 8 r3 of
               Inl err \<Rightarrow> Inl err
             | Inr (timeoutBuf, r4) \<Rightarrow>
            (case (if IsTreeDASMessageHeaderByte dp header
                   then (case io_ReadFull 1 r4 of
                           Inl err \<Rightarrow> Inl err
                         | Inr (versionBuf, r5) \<Rightarrow> Inr (versionBuf ! 0, r5))
                   else Inr (0, r4)) of
               Inl err \<Rightarrow> Inl err
             | Inr (version, r5) \<Rightarrow>
            (case io_ReadFull 8 r5 of
               Inl err \<Rightarrow> Inl err
             | Inr (signersMaskBuf, r6) \<Rightarrow>
            (case io_ReadFull 96 r6 of
               Inl err \<Rightarrow> Inl err
             | Inr (blsSignaturesBuf, r7) \<Rightarrow>
            (case bls_SignatureFromBytes bls blsSignaturesBuf of
               Inl err \<Rightarrow> Inl err
             | Inr sig \<Rightarrow>
                 Inr \<lparr>KeysetHash = keysetHash, DataHash = dataHash,
                      Timeout = BigEndian_Uint64 timeoutBuf,
                      SignersMask = BigEndian_Uint64 signersMaskBuf,
                      Sig = sig, Version = version\<rparr>))))))))"

text \<open>
  A well-formed certificate: both hashes have the 32 bytes of the source's arrays, and the
  signature is a valid one, that is, the BLS library writes it as 96 bytes and reads
  these bytes back as the same signature.
\<close>

definition wf_cert ::
  "('pk, 'sig) blsSignatures \<Rightarrow> 'sig DataAvailabilityCertificate \<Rightarrow> bool" where
  "wf_cert bls c =
     (length (KeysetHash c) = 32 \<and> length (DataHash c) = 32 \<and>
      length (bls_SignatureToBytes bls (Sig c)) = 96 \<and>
      bls_SignatureFromBytes bls (bls_SignatureToBytes bls (Sig c)) = Inr (Sig c))"

section \<open>The keyset codec and the signature check\<close>

record 'pk DataAvailabilityKeyset =
  AssumedHonest :: u64
  PubKeys :: "'pk list"

text \<open>
  Modelled from the spec: \<open>util.Uint64FromReader\<close> is missing from the modelled files.
  The keyset wire format has its two leading fields as big-endian \<open>u64\<close>: the helper
  reads eight bytes in full and decodes them.
\<close>

definition Uint64FromReader :: "bytes \<Rightarrow> error + (u64 \<times> bytes)" where
  "Uint64FromReader rd =
     (case io_ReadFull 8 rd of
        Inl err \<Rightarrow> Inl err
      | Inr (buf, rest) \<Rightarrow> Inr (BigEndian_Uint64 buf, rest))"

text \<open>
  The loop of \<open>DeserializeKeyset\<close>; the first number counts the iterations still to
  run (\<open>numKeys - i\<close>), and \<open>pubkeys\<close> holds the keys read so far.
\<close>

fun DeserializeKeyset_loop ::
  "('pk, 'sig) blsSignatures \<Rightarrow> bool \<Rightarrow> nat \<Rightarrow> bytes \<Rightarrow> 'pk list \<Rightarrow> error + 'pk list" where
  "DeserializeKeyset_loop bls assumeKeysetValid 0 rd pubkeys = Inr pubkeys"
| "DeserializeKeyset_loop bls assumeKeysetValid (Suc n) rd pubkeys =
     (case io_ReadFull 2 rd of
        Inl err \<Rightarrow> Inl err
      | Inr (buf2, r1) \<Rightarrow>
          (case io_ReadFull (unat (buf2 ! 0) * 256 + unat (buf2 ! 1)) r1 of
             Inl err \<Rightarrow> Inl err
           | Inr (buf, r2) \<Rightarrow>
               (case bls_PublicKeyFromBytes bls buf assumeKeysetValid of
                  Inl err \<Rightarrow> Inl err
                | Inr pk \<Rightarrow>
                    DeserializeKeyset_loop bls assumeKeysetValid n r2 (pubkeys @ [pk]))))"

definition DeserializeKeyset ::
  "('pk, 'sig) blsSignatures \<Rightarrow> bytes \<Rightarrow> bool \<Rightarrow> error + 'pk DataAvailabilityKeyset" where
  "DeserializeKeyset bls rd assumeKeysetValid =
     (case Uint64FromReader rd of
        Inl err \<Rightarrow> Inl err
      | Inr (assumedHonest, r1) \<Rightarrow>
          (case Uint64FromReader r1 of
             Inl err \<Rightarrow> Inl err
           | Inr (numKeys, r2) \<Rightarrow>
               if numKeys > 64 then Inl ErrTooManyKeys
               else
                 (case DeserializeKeyset_loop bls assumeKeysetValid (unat numKeys) r2 [] of
                    Inl err \<Rightarrow> Inl err
                  | Inr pubkeys \<Rightarrow>
                      Inr \<lparr>AssumedHonest = assumedHonest, PubKeys = pubkeys\<rparr>)))"

text \<open>
  The loop of \<open>VerifySignature\<close>, from index \<open>i\<close> on. \<open>1 << i\<close> is a shift of a
  \<open>uint64\<close>: it is 0 from \<open>i = 64\<close> on.
\<close>

function VerifySignature_loop ::
  "'pk list \<Rightarrow> u64 \<Rightarrow> nat \<Rightarrow> 'pk list \<Rightarrow> u64 \<Rightarrow> 'pk list \<times> u64" where
  "VerifySignature_loop keys signersMask i pubkeys numNonSigners =
     (if i < length keys
      then (if push_bit i 1 AND signersMask \<noteq> 0
            then VerifySignature_loop keys signersMask (i + 1) (pubkeys @ [keys ! i])
                   numNonSigners
            else VerifySignature_loop keys signersMask (i + 1) pubkeys (numNonSigners + 1))
      else (pubkeys, numNonSigners))"
  by pat_completeness auto
termination
  by (relation "measure (\<lambda>(keys, signersMask, i, pubkeys, numNonSigners). length keys - i)") auto

declare VerifySignature_loop.simps [simp del]

definition VerifySignature ::
  "('pk, 'sig) blsSignatures \<Rightarrow> 'pk DataAvailabilityKeyset \<Rightarrow> u64 \<Rightarrow> bytes \<Rightarrow> 'sig \<Rightarrow>
     error option" where
  "VerifySignature bls keyset signersMask data sig =
     (case VerifySignature_loop (PubKeys keyset) signersMask 0 [] 0 of
        (pubkeys, numNonSigners) \<Rightarrow>
          if numNonSigners \<ge> AssumedHonest keyset then Some ErrNotEnoughSigners
          else
            (let aggregatedPubKey = bls_AggregatePublicKeys bls pubkeys
             in case bls_VerifySignature bls sig data aggregatedPubKey of
                  Inl err \<Rightarrow> Some err
                | Inr success \<Rightarrow> if \<not> success then Some ErrBadSignature else None))"

section \<open>Batch recovery\<close>

text \<open>
  What a call does besides returning: the log lines it writes and the hashes it asks the
  reader for, in order. A log line is its message, with "Couldn't" written "Could not".
\<close>

datatype event =
    LogError string
  | LogDebug string
  | LogTrace string
  | ReaderGetByHash bytes


text \<open>
  A \<open>DASReader\<close> answers \<open>GetByHash\<close> from a state of its own, which a call may
  change; the keyset fetcher is asked once a call, and is a function.
\<close>

type_synonym 's DASReader = "'s \<Rightarrow> bytes \<Rightarrow> (error + bytes) \<times> 's"
type_synonym DASKeysetFetcher = "bytes \<Rightarrow> error + bytes"


datatype PreimageType =
    Keccak256PreimageType
  | Sha2_256PreimageType
  | EthVersionedHashPreimageType

type_synonym PreimagesMap = "PreimageType \<times> bytes \<rightharpoonup> bytes"

text \<open>
  Modelled from the spec: \<open>daprovider.RecordPreimagesTo\<close> is missing from the modelled
  files. The recorder is "attached to an append-only map": recording stores the bytes
  under the hash and the type tag.
\<close>

definition RecordPreimagesTo ::
  "PreimagesMap \<Rightarrow> bytes \<Rightarrow> bytes \<Rightarrow> PreimageType \<Rightarrow> PreimagesMap" where
  "RecordPreimagesTo preimages key val ty = preimages((ty, key) \<mapsto> val)"

definition RecordHash :: "hashes \<Rightarrow> PreimagesMap \<Rightarrow> bytes \<Rightarrow> PreimagesMap" where
  "RecordHash hs preimages preimage =
     foldl (\<lambda>pm (key, val). RecordPreimagesTo pm key val Keccak256PreimageType)
       preimages (dastree_RecordHash hs preimage)"

definition MinLifetimeSecondsForDataAvailabilityCert :: u64 where
  "MinLifetimeSecondsForDataAvailabilityCert = 7 * 24 * 60 * 60"

text \<open>
  The closure \<open>getByHash\<close> of \<open>RecoverPayloadFromDasBatch\<close>, with the variables it
  captures (\<open>version\<close>, \<open>dasReader\<close>) as arguments. It returns its result, its events
  and the reader's state.
\<close>

definition getByHash ::
  "hashes \<Rightarrow> 's DASReader \<Rightarrow> byte \<Rightarrow> 's \<Rightarrow> bytes \<Rightarrow> (error + bytes) \<times> event list \<times> 's" where
  "getByHash hs dasReader version s hash =
     (let newHash = (if version = 0 then dastree_FlatHashToTreeHash hs hash else hash)
      in case dasReader s newHash of
           (r1, s1) \<Rightarrow>
             (case (case r1 of
                      Inl err \<Rightarrow>
                        if hash \<noteq> newHash
                        then (case dasReader s1 hash of
                                (r2, s2) \<Rightarrow>
                                  (r2,
                                   [ReaderGetByHash newHash,
                                    LogDebug ''error fetching new style hash, trying old'',
                                    ReaderGetByHash hash],
                                   s2))
                        else (r1, [ReaderGetByHash newHash], s1)
                    | Inr preimage \<Rightarrow> (r1, [ReaderGetByHash newHash], s1)) of
                (r, ev, s') \<Rightarrow>
                  (case r of
                     Inl err \<Rightarrow> (Inl err, ev, s')
                   | Inr preimage \<Rightarrow>
                       if (version = 0 \<and> crypto_Keccak256Hash hs preimage \<noteq> hash) \<or>
                          (version = 1 \<and> dastree_Hash hs preimage \<noteq> hash)
                       then (Inl ErrHashMismatch,
                             ev @ [LogError ''preimage mismatch for hash''], s')
                       else (Inr preimage, ev, s'))))"

text \<open>
  A call of \<open>RecoverPayloadFromDasBatch\<close> panics or returns. A return carries the three
  results (\<open>None\<close> is \<open>nil\<close>), the events, the reader's state and the caller's preimages
  map as the call leaves it: the map is shared with the caller, so what was recorded
  before a return without results stays recorded.
\<close>

record 's recovery =
  ret_payload :: "bytes option"
  ret_preimages :: "PreimagesMap option"
  ret_err :: "error option"
  events :: "event list"
  reader_state :: 's
  preimages_mem :: "PreimagesMap option"

datatype 'a outcome = Panic | Returns 'a

definition RecoverPayloadFromDasBatch ::
  "daprovider \<Rightarrow> ('pk, 'sig) blsSignatures \<Rightarrow> hashes \<Rightarrow> u64 \<Rightarrow> bytes \<Rightarrow> 's DASReader \<Rightarrow> 's \<Rightarrow>
     DASKeysetFetcher \<Rightarrow> PreimagesMap option \<Rightarrow> bool \<Rightarrow> 's recovery outcome" where
  "RecoverPayloadFromDasBatch dp bls hs batchNum sequencerMsg dasReader s keysetFetcher
       preimages validateSeqMsg =
     (if length sequencerMsg < 40 then Panic
      else
        (case DeserializeDASCertFrom dp bls (drop 40 sequencerMsg) of
           Inl err \<Rightarrow>
             Returns \<lparr>ret_payload = None, ret_preimages = None, ret_err = None,
                      events = [LogError ''Failed to deserialize DAS message''],
                      reader_state = s, preimages_mem = preimages\<rparr>
         | Inr cert \<Rightarrow>
             (let version = Version cert
              in if version \<ge> 2
                 then Returns \<lparr>ret_payload = None, ret_preimages = None, ret_err = None,
                        events = [LogError ''Your node software is probably out of date''],
                        reader_state = s, preimages_mem = preimages\<rparr>
                 else
                   (case keysetFetcher (KeysetHash cert) of
                      Inl err \<Rightarrow>
                        Returns \<lparr>ret_payload = None, ret_preimages = None, ret_err = Some err,
                          events = [LogError ''Could not get keyset''],
                          reader_state = s, preimages_mem = preimages\<rparr>
                    | Inr keysetPreimage \<Rightarrow>
                        (let pre1 = map_option (\<lambda>pm. RecordHash hs pm keysetPreimage) preimages
                         in case DeserializeKeyset bls keysetPreimage (\<not> validateSeqMsg) of
                              Inl err \<Rightarrow>
                                Returns \<lparr>ret_payload = None, ret_preimages = None,
                                  ret_err = Some (ErrSeqMsgValidation err), events = [],
                                  reader_state = s, preimages_mem = pre1\<rparr>
                            | Inr keyset \<Rightarrow>
                                (case VerifySignature bls keyset (SignersMask cert)
                                        (SerializeSignableFields cert) (Sig cert) of
                                   Some err \<Rightarrow>
                                     Returns \<lparr>ret_payload = None, ret_preimages = None,
                                       ret_err = None,
                                       events = [LogError ''Bad signature on DAS batch''],
                                       reader_state = s, preimages_mem = pre1\<rparr>
                                 | None \<Rightarrow>
                                     (let maxTimestamp =
                                            BigEndian_Uint64 (take 8 (drop 8 sequencerMsg))
                                      in if Timeout cert <
                                              maxTimestamp + MinLifetimeSecondsForDataAvailabilityCert
                                         then Returns \<lparr>ret_payload = None, ret_preimages = None,
                                                ret_err = None,
                                                events =
                                                  [LogError
                                                     ''Data availability cert expires too soon''],
                                                reader_state = s, preimages_mem = pre1\<rparr>
                                         else
                                           (let dataHash = DataHash cert
                                            in case getByHash hs dasReader version s dataHash of
                                                 (Inl err, ev, s') \<Rightarrow>
                                                   Returns \<lparr>ret_payload = None,
                                                     ret_preimages = None, ret_err = Some err,
                                                     events =
                                                       ev @
                                                       [LogError
                                                          ''Could not fetch DAS batch contents''],
                                                     reader_state = s', preimages_mem = pre1\<rparr>
                                               | (Inr payload, ev, s') \<Rightarrow>
                                                   (let pre2 =
                                                          map_option
                                                            (\<lambda>pm.
                                                               if version = 0
                                                               then
                                                                 (let treeLeaf =
                                                                        dastree_FlatHashToTreeLeaf
                                                                          hs dataHash;
                                                                      pm =
                                                                        RecordPreimagesTo pm
                                                                          dataHash payload
                                                                          Keccak256PreimageType
                                                                  in RecordPreimagesTo pm
                                                                       (crypto_Keccak256Hash hs
                                                                          treeLeaf)
                                                                       treeLeaf
                                                                       Keccak256PreimageType)
                                                               else RecordHash hs pm payload)
                                                            pre1
                                                    in Returns \<lparr>ret_payload = Some payload,
                                                         ret_preimages = pre2, ret_err = None,
                                                         events = ev, reader_state = s',
                                                         preimages_mem = pre2\<rparr>)))))))))"

section \<open>The signed Redis cache\<close>

text \<open>
  \<open>common.HexToHash\<close> of go-ethereum, with the functions it is made of: \<open>FromHex\<close>
  drops a leading \<open>0x\<close> or \<open>0X\<close> and pads an odd number of digits with a leading
  \<open>0\<close>; \<open>Hex2Bytes\<close> keeps what \<open>hex.DecodeString\<close> decoded and drops its error, so
  decoding stops without failure at the first character that is no hex digit;
  \<open>BytesToHash\<close> keeps the last 32 bytes of a longer input and pads a shorter one with
  zero bytes on the left.
\<close>

definition fromHexChar :: "char \<Rightarrow> byte option" where
  "fromHexChar c =
     (let n = (of_char c :: nat)
      in if 48 \<le> n \<and> n \<le> 57 then Some (of_nat (n - 48))
         else if 97 \<le> n \<and> n \<le> 102 then Some (of_nat (n - 87))
         else if 65 \<le> n \<and> n \<le> 70 then Some (of_nat (n - 55))
         else None)"

fun hex_DecodeString :: "string \<Rightarrow> bytes" where
  "hex_DecodeString (p # q # rest) =
     (case fromHexChar p of
        None \<Rightarrow> []
      | Some a \<Rightarrow>
          (case fromHexChar q of
             None \<Rightarrow> []
           | Some b \<Rightarrow> (push_bit 4 a OR b) # hex_DecodeString rest))"
| "hex_DecodeString [p] = []"
| "hex_DecodeString [] = []"

definition has0xPrefix :: "string \<Rightarrow> bool" where
  "has0xPrefix str =
     (length str \<ge> 2 \<and> str ! 0 = CHR ''0'' \<and> (str ! 1 = CHR ''x'' \<or> str ! 1 = CHR ''X''))"

definition Hex2Bytes :: "string \<Rightarrow> bytes" where
  "Hex2Bytes str = hex_DecodeString str"

definition FromHex :: "string \<Rightarrow> bytes" where
  "FromHex s =
     (let s = (if has0xPrefix s then drop 2 s else s);
          s = (if length s mod 2 = 1 then CHR ''0'' # s else s)
      in Hex2Bytes s)"

definition BytesToHash :: "bytes \<Rightarrow> bytes" where
  "BytesToHash b =
     (let b = (if length b > 32 then drop (length b - 32) b else b)
      in replicate (32 - length b) 0 @ b)"

definition HexToHash :: "string \<Rightarrow> bytes" where
  "HexToHash s = BytesToHash (FromHex s)"

record RedisConfig =
  Enable :: bool
  Url :: string
  Expiration :: int
  KeyConfig :: string

text \<open>
  The base storage service and the Redis client act on the world outside the program:
  each call takes the state \<open>'w\<close> of that world and returns the new one. An error
  result of \<open>None\<close> is \<open>nil\<close>.
\<close>

record 'w StorageService =
  base_GetByHash :: "'w \<Rightarrow> bytes \<Rightarrow> (error + bytes) \<times> 'w"
  base_Put :: "'w \<Rightarrow> bytes \<Rightarrow> u64 \<Rightarrow> error option \<times> 'w"

record 'w redis_client =
  client_Get :: "'w \<Rightarrow> bytes \<Rightarrow> (error + bytes) \<times> 'w"
  client_Set :: "'w \<Rightarrow> bytes \<Rightarrow> bytes \<Rightarrow> int \<Rightarrow> error option \<times> 'w"

text \<open>The fields of the service carry the prefix \<open>rs_\<close>.\<close>

record 'w RedisStorageService =
  rs_baseStorageService :: "'w StorageService"
  rs_redisConfig :: RedisConfig
  rs_signingKey :: bytes
  rs_client :: "'w redis_client"

text \<open>
  \<open>redisutil.RedisClientFromURL\<close> is a parameter: for a URL it gives an error or a
  client.
\<close>

definition NewRedisStorageService ::
  "(string \<Rightarrow> error + 'w redis_client) \<Rightarrow> RedisConfig \<Rightarrow> 'w StorageService \<Rightarrow>
     error + 'w RedisStorageService" where
  "NewRedisStorageService RedisClientFromURL redisConfig baseStorageService =
     (case RedisClientFromURL (Url redisConfig) of
        Inl err \<Rightarrow> Inl err
      | Inr redisClient \<Rightarrow>
          (let signingKey = HexToHash (KeyConfig redisConfig)
           in if signingKey = replicate 32 0 then Inl ErrSigningKeyNot32BytesOfHex
              else Inr \<lparr>rs_baseStorageService = baseStorageService,
                        rs_redisConfig = redisConfig,
                        rs_signingKey = signingKey,
                        rs_client = redisClient\<rparr>))"

text \<open>
  The HMAC over legacy Keccak-256 is a parameter \<open>mac\<close>: from the key and the message
  to the tag.
\<close>

definition verifyMessageSignature ::
  "(bytes \<Rightarrow> bytes \<Rightarrow> bytes) \<Rightarrow> 'w RedisStorageService \<Rightarrow> bytes \<Rightarrow> error + bytes" where
  "verifyMessageSignature mac rs data =
     (if length data < 32 then Inl ErrDataTooShort
      else
        (let message = take (length data - 32) data;
             haveHmac = BytesToHash (drop (length data - 32) data);
             expectHmac = mac (rs_signingKey rs) message
         in if haveHmac \<noteq> expectHmac then Inl ErrHmacMismatch else Inr message))"

definition getVerifiedData ::
  "(bytes \<Rightarrow> bytes \<Rightarrow> bytes) \<Rightarrow> 'w RedisStorageService \<Rightarrow> 'w \<Rightarrow> bytes \<Rightarrow>
     (error + bytes) \<times> event list \<times> 'w" where
  "getVerifiedData mac rs w key =
     (case client_Get (rs_client rs) w key of
        (Inl err, w1) \<Rightarrow> (Inl err, [LogError ''das.RedisStorageService.getVerifiedData''], w1)
      | (Inr data, w1) \<Rightarrow>
          (case verifyMessageSignature mac rs data of
             Inl err \<Rightarrow> (Inl err, [], w1)
           | Inr data \<Rightarrow> (Inr data, [], w1)))"

definition signMessage ::
  "(bytes \<Rightarrow> bytes \<Rightarrow> bytes) \<Rightarrow> 'w RedisStorageService \<Rightarrow> bytes \<Rightarrow> bytes" where
  "signMessage mac rs message = message @ mac (rs_signingKey rs) message"

definition GetByHash ::
  "(bytes \<Rightarrow> bytes \<Rightarrow> bytes) \<Rightarrow> 'w RedisStorageService \<Rightarrow> 'w \<Rightarrow> bytes \<Rightarrow>
     (error + bytes) \<times> event list \<times> 'w" where
  "GetByHash mac rs w key =
     (case getVerifiedData mac rs w key of
        (Inl err, ev, w1) \<Rightarrow>
          (case base_GetByHash (rs_baseStorageService rs) w1 key of
             (Inl err, w2) \<Rightarrow>
               (Inl err, LogTrace ''das.RedisStorageService.GetByHash'' # ev, w2)
           | (Inr ret, w2) \<Rightarrow>
               (case client_Set (rs_client rs) w2 key (signMessage mac rs ret)
                       (Expiration (rs_redisConfig rs)) of
                  (Some err, w3) \<Rightarrow>
                    (Inl err, LogTrace ''das.RedisStorageService.GetByHash'' # ev, w3)
                | (None, w3) \<Rightarrow>
                    (Inr ret, LogTrace ''das.RedisStorageService.GetByHash'' # ev, w3)))
      | (Inr ret, ev, w1) \<Rightarrow>
          (Inr ret, LogTrace ''das.RedisStorageService.GetByHash'' # ev, w1))"

definition Put ::
  "(bytes \<Rightarrow> bytes \<Rightarrow> bytes) \<Rightarrow> hashes \<Rightarrow> 'w RedisStorageService \<Rightarrow> 'w \<Rightarrow> bytes \<Rightarrow> u64 \<Rightarrow>
     error option \<times> event list \<times> 'w" where
  "Put mac hs rs w val timeout =
     (case base_Put (rs_baseStorageService rs) w val timeout of
        (Some err, w1) \<Rightarrow> (Some err, [LogTrace ''das.RedisStorageService.Store''], w1)
      | (None, w1) \<Rightarrow>
          (case client_Set (rs_client rs) w1 (dastree_Hash hs val) (signMessage mac rs val)
                  (Expiration (rs_redisConfig rs)) of
             (Some err, w2) \<Rightarrow>
               (Some err,
                [LogTrace ''das.RedisStorageService.Store'',
                 LogError ''das.RedisStorageService.Store''], w2)
           | (None, w2) \<Rightarrow> (None, [LogTrace ''das.RedisStorageService.Store''], w2)))"

section \<open>A concrete instance of the collaborators\<close>

text \<open>
  To run the model on concrete inputs the parameters need values. The flags are two
  distinct bits. The stand-in for the BLS library has one-byte keys, aggregates keys by
  adding them, and takes as the signature of a key on a message 96 copies of the key
  xor-ed with all bytes of the message.
\<close>

definition demo_flags :: daprovider where
  "demo_flags = \<lparr>DASMessageHeaderFlag = 0x80, TreeDASMessageHeaderFlag = 0x08\<rparr>"

definition demo_sign :: "byte \<Rightarrow> bytes \<Rightarrow> bytes" where
  "demo_sign k msg = replicate 96 (foldr (XOR) msg k)"

definition demo_bls :: "(byte, bytes) blsSignatures" where
  "demo_bls =
     \<lparr>bls_SignatureFromBytes = (\<lambda>b. Inr b),
      bls_SignatureToBytes = (\<lambda>s. s),
      bls_PublicKeyFromBytes =
        (\<lambda>b validate. case b of [k] \<Rightarrow> Inr k | _ \<Rightarrow> Inl (ErrExternal ''bad public key'')),
      bls_AggregatePublicKeys = sum_list,
      bls_VerifySignature = (\<lambda>sig msg pk. Inr (sig = demo_sign pk msg))\<rparr>"

text \<open>
  The stand-in hashes take 32 copies of the xor of a tag and all bytes of the input; the
  bridge from a flat hash hashes the leaf \<open>0xfe # h\<close>. The stand-in reader and keyset
  fetcher look the hash up in a list of pairs and have no state.
\<close>

definition demo_hash :: "byte \<Rightarrow> bytes \<Rightarrow> bytes" where
  "demo_hash tag bs = replicate 32 (foldr (XOR) bs tag)"

definition demo_hashes :: hashes where
  "demo_hashes =
     \<lparr>crypto_Keccak256Hash = demo_hash 0,
      dastree_Hash = demo_hash 1,
      dastree_FlatHashToTreeHash = (\<lambda>h. demo_hash 0 (0xfe # h)),
      dastree_FlatHashToTreeLeaf = (\<lambda>h. 0xfe # h),
      dastree_RecordHash = (\<lambda>bs. [(demo_hash 1 bs, bs)])\<rparr>"

definition demo_reader :: "(bytes \<times> bytes) list \<Rightarrow> unit DASReader" where
  "demo_reader store s h =
     (case map_of store h of
        None \<Rightarrow> (Inl (ErrExternal ''not found''), s)
      | Some v \<Rightarrow> (Inr v, s))"

definition demo_fetcher :: "(bytes \<times> bytes) list \<Rightarrow> DASKeysetFetcher" where
  "demo_fetcher store h =
     (case map_of store h of
        None \<Rightarrow> Inl (ErrExternal ''not found'')
      | Some v \<Rightarrow> Inr v)"

text \<open>
  A keyset of one key, \<open>7\<close>, with \<open>assumed_honest = 1\<close>, in the wire format, and a
  version-1 certificate for a payload, signed by that key, with the given timeout and
  signers mask.
\<close>

definition demo_keyset_bytes :: bytes where
  "demo_keyset_bytes = BigEndian_PutUint64 1 @ BigEndian_PutUint64 1 @ [0, 1, 7]"

definition demo_cert :: "bytes \<Rightarrow> u64 \<Rightarrow> u64 \<Rightarrow> bytes DataAvailabilityCertificate" where
  "demo_cert payload timeout signers =
     \<lparr>KeysetHash = demo_hash 1 demo_keyset_bytes,
      DataHash = demo_hash 1 payload,
      Timeout = timeout,
      SignersMask = signers,
      Sig = demo_sign 7 (demo_hash 1 payload @ BigEndian_PutUint64 timeout @ [1]),
      Version = 1\<rparr>"

text \<open>
  A sequencer message: eight unused bytes, \<open>max_timestamp\<close>, 24 more bytes, then the
  serialized certificate.
\<close>

definition demo_msg :: "u64 \<Rightarrow> bytes DataAvailabilityCertificate \<Rightarrow> bytes" where
  "demo_msg maxTimestamp c =
     replicate 8 0 @ BigEndian_PutUint64 maxTimestamp @ replicate 24 0 @
     Serialize demo_flags demo_bls c"

text \<open>
  A base store that takes every write and answers every read with the same three bytes,
  a Redis client whose every call fails, and one that misses every read and takes every
  write; the world has no state. The stand-in HMAC is the stand-in hash of key and
  message.
\<close>

definition demo_base :: "unit StorageService" where
  "demo_base =
     \<lparr>base_GetByHash = (\<lambda>w h. (Inr [1, 2, 3], w)),
      base_Put = (\<lambda>w v t. (None, w))\<rparr>"

definition demo_client_down :: "unit redis_client" where
  "demo_client_down =
     \<lparr>client_Get = (\<lambda>w k. (Inl (ErrExternal ''redis: connection refused''), w)),
      client_Set = (\<lambda>w k v e. (Some (ErrExternal ''redis: connection refused''), w))\<rparr>"

definition demo_client_up :: "unit redis_client" where
  "demo_client_up =
     \<lparr>client_Get = (\<lambda>w k. (Inl (ErrExternal ''redis: nil''), w)),
      client_Set = (\<lambda>w k v e. (None, w))\<rparr>"

definition demo_mac :: "bytes \<Rightarrow> bytes \<Rightarrow> bytes" where
  "demo_mac k msg = demo_hash 2 (k @ msg)"

definition demo_config :: "string \<Rightarrow> RedisConfig" where
  "demo_config k =
     \<lparr>Enable = True, Url = ''redis://localhost:6379'', Expiration = 3600000000000,
      KeyConfig = k\<rparr>"

definition demo_service :: "unit redis_client \<Rightarrow> unit RedisStorageService" where
  "demo_service c =
     \<lparr>rs_baseStorageService = demo_base,
      rs_redisConfig = demo_config ''0x01'',
      rs_signingKey = HexToHash ''0x01'',
      rs_client = c\<rparr>"

section \<open>Properties of the byte readers and of the big-endian codec\<close>

lemma io_ReadFull_append:
  "length xs = n \<Longrightarrow> io_ReadFull n (xs @ ys) = Inr (xs, ys)"
  by (auto simp: io_ReadFull_def)

lemma BigEndian_Uint64_PutUint64: "BigEndian_Uint64 (BigEndian_PutUint64 v) = v"
proof (rule bit_word_eqI)
  fix n :: nat
  assume "n < LENGTH(64)"
  then have n: "n < 64" by simp
  show "bit (BigEndian_Uint64 (BigEndian_PutUint64 v)) n = bit v n"
  proof (cases "bit v n")
    case True
    with n show ?thesis
      unfolding BigEndian_Uint64_def BigEndian_PutUint64_def
      by (simp add: bit_simps less_diff_conv2 cong: conj_cong) linarith
  next
    case False
    with n show ?thesis
      unfolding BigEndian_Uint64_def BigEndian_PutUint64_def
      by (simp add: bit_simps cong: conj_cong)
  qed
qed

lemma unat_ucast_byte: "unat (ucast (w::u64) :: byte) = unat w mod 256"
  by (simp add: unsigned_ucast_eq take_bit_eq_mod)

lemma ucast_drop_bit_byte:
  "(ucast (drop_bit k (v::u64)) :: byte) = of_nat (unat v div 2 ^ k mod 256)"
proof -
  have "unat (ucast (drop_bit k v) :: byte) = unat (drop_bit k v) mod 256"
    by (rule unat_ucast_byte)
  also have "\<dots> = drop_bit k (unat v) mod 256"
    by (simp only: unat_drop_bit_eq)
  also have "\<dots> = unat v div 2 ^ k mod 256"
    by (simp only: drop_bit_eq_div)
  finally show ?thesis
    by (simp add: word_unat_eq_iff unat_of_nat)
qed

lemma ucast_byte: "(ucast (v::u64) :: byte) = of_nat (unat v mod 256)"
  using ucast_drop_bit_byte [of 0 v] by simp

lemma be_bytes_8: "be_bytes 8 (unat (v::u64)) = BigEndian_PutUint64 v"
proof -
  have e8: "(8::nat) = Suc (Suc (Suc (Suc (Suc (Suc (Suc (Suc 0)))))))" by simp
  have e: "be_bytes 8 = be_bytes (Suc (Suc (Suc (Suc (Suc (Suc (Suc (Suc 0))))))))"
    by (rule arg_cong [OF e8])
  show ?thesis
    unfolding e BigEndian_PutUint64_def
    by (simp only: ucast_drop_bit_byte) (simp add: ucast_byte div_mult2_eq[symmetric])
qed

lemma length_BigEndian_PutUint64: "length (BigEndian_PutUint64 v) = 8"
  by (simp add: BigEndian_PutUint64_def)

lemma io_ReadFull_1: "io_ReadFull (Suc 0) (v # rest) = Inr ([v], rest)"
  by (simp add: io_ReadFull_def)

lemma Uint64FromReader_append:
  "Uint64FromReader (BigEndian_PutUint64 v @ rest) = Inr (v, rest)"
  by (simp add: Uint64FromReader_def io_ReadFull_append length_BigEndian_PutUint64
      BigEndian_Uint64_PutUint64)

section \<open>The certificate codec: signable fields and round trip\<close>

lemma hasBits_self: "hasBits a a"
  by (simp add: hasBits_def)

lemma hasBits_or_left: "hasBits (a OR b) a"
  by (auto simp: hasBits_def bit_eq_iff bit_and_iff bit_or_iff)

lemma hasBits_or_right: "hasBits (a OR b) b"
  by (auto simp: hasBits_def bit_eq_iff bit_and_iff bit_or_iff)

lemma DeserializeDASCertFrom_Serialize_append:
  assumes wf: "wf_cert bls c"
    and fl: "\<not> hasBits (DASMessageHeaderFlag dp) (TreeDASMessageHeaderFlag dp)"
  shows "DeserializeDASCertFrom dp bls (Serialize dp bls c @ rest) = Inr c"
proof (cases "Version c = 0")
  case True
  with wf fl show ?thesis
    by (simp add: DeserializeDASCertFrom_def Serialize_def SerializeSignableFields_def
        wf_cert_def ReadByte_def IsDASMessageHeaderByte_def IsTreeDASMessageHeaderByte_def
        hasBits_self io_ReadFull_append length_BigEndian_PutUint64 BigEndian_Uint64_PutUint64)
next
  case False
  with wf fl show ?thesis
    by (simp add: DeserializeDASCertFrom_def Serialize_def SerializeSignableFields_def
        wf_cert_def ReadByte_def IsDASMessageHeaderByte_def IsTreeDASMessageHeaderByte_def
        hasBits_or_left hasBits_or_right io_ReadFull_append io_ReadFull_1
        length_BigEndian_PutUint64 BigEndian_Uint64_PutUint64)
qed

lemma wf_demo_cert: "wf_cert demo_bls (demo_cert p t m)"
  by (simp add: wf_cert_def demo_cert_def demo_bls_def demo_hash_def demo_sign_def)

lemma wf_demo_cert_v0: "wf_cert demo_bls ((demo_cert p t m)\<lparr>Version := 0\<rparr>)"
  by (simp add: wf_cert_def demo_cert_def demo_bls_def demo_hash_def demo_sign_def)

lemma demo_flags_distinct:
  "\<not> hasBits (DASMessageHeaderFlag demo_flags) (TreeDASMessageHeaderFlag demo_flags)"
  by (simp add: hasBits_def demo_flags_def)

text \<open>
  C6. For every well-formed certificate, of any version and with a valid 96-byte
  signature, deserializing the output of \<open>Serialize\<close> succeeds and gives the
  certificate back, equal in every field. The flag constants are parameters: the TREE
  bit must not be one of the bits of the header flag.
\<close>

theorem Serialize_roundtrip:
  assumes "wf_cert bls c"
    and "\<not> hasBits (DASMessageHeaderFlag dp) (TreeDASMessageHeaderFlag dp)"
  shows "DeserializeDASCertFrom dp bls (Serialize dp bls c) = Inr c"
  using DeserializeDASCertFrom_Serialize_append [OF assms, of "[]"] by simp

theorem Serialize_roundtrip_witness:
  "wf_cert demo_bls (demo_cert [1, 2, 4] 604800 3) \<and>
   wf_cert demo_bls ((demo_cert [1, 2, 4] 604800 3)\<lparr>Version := 0\<rparr>) \<and>
   \<not> hasBits (DASMessageHeaderFlag demo_flags) (TreeDASMessageHeaderFlag demo_flags) \<and>
   DeserializeDASCertFrom demo_flags demo_bls
     (Serialize demo_flags demo_bls (demo_cert [1, 2, 4] 604800 3)) =
     Inr (demo_cert [1, 2, 4] 604800 3) \<and>
   DeserializeDASCertFrom demo_flags demo_bls
     (Serialize demo_flags demo_bls ((demo_cert [1, 2, 4] 604800 3)\<lparr>Version := 0\<rparr>)) =
     Inr ((demo_cert [1, 2, 4] 604800 3)\<lparr>Version := 0\<rparr>)"
  using Serialize_roundtrip [OF wf_demo_cert demo_flags_distinct]
    Serialize_roundtrip [OF wf_demo_cert_v0 demo_flags_distinct]
    wf_demo_cert wf_demo_cert_v0 demo_flags_distinct
  by blast

text \<open>
  C7. The signable bytes of a certificate are the bytes of \<open>DataHash\<close>, then the eight
  bytes of the big-endian encoding of \<open>Timeout\<close>, then the byte \<open>Version\<close> exactly when
  it is not 0; \<open>KeysetHash\<close> and \<open>SignersMask\<close> have no part in them.
\<close>

theorem SerializeSignableFields_layout:
  "SerializeSignableFields c =
     DataHash c @ be_bytes 8 (unat (Timeout c)) @ (if Version c \<noteq> 0 then [Version c] else []) \<and>
   SerializeSignableFields (c\<lparr>KeysetHash := k, SignersMask := m\<rparr>) = SerializeSignableFields c"
  by (simp add: SerializeSignableFields_def be_bytes_8)

section \<open>The keyset codec\<close>

text \<open>
  C9. An input whose second big-endian \<open>u64\<close>, the number of keys, is greater than 64
  is rejected by \<open>DeserializeKeyset\<close>; so is one with 65 keys announced.
\<close>

theorem DeserializeKeyset_too_many_keys:
  assumes "length rd \<ge> 16" and "BigEndian_Uint64 (take 8 (drop 8 rd)) > 64"
  shows "DeserializeKeyset bls rd assumeKeysetValid = Inl ErrTooManyKeys"
  using assms
  by (auto simp: DeserializeKeyset_def Uint64FromReader_def io_ReadFull_def)

theorem DeserializeKeyset_too_many_keys_witness:
  "DeserializeKeyset demo_bls (BigEndian_PutUint64 1 @ BigEndian_PutUint64 65) True =
     Inl ErrTooManyKeys"
proof -
  have l: "length (BigEndian_PutUint64 1 @ BigEndian_PutUint64 65) \<ge> 16"
    by (simp add: length_BigEndian_PutUint64)
  have n: "BigEndian_Uint64 (take 8 (drop 8 (BigEndian_PutUint64 1 @ BigEndian_PutUint64 65))) > 64"
    by (simp add: length_BigEndian_PutUint64 BigEndian_Uint64_PutUint64)
  show ?thesis
    by (rule DeserializeKeyset_too_many_keys [OF l n])
qed

section \<open>The signature check and the signers mask\<close>

lemma signer_bit: "(push_bit i 1 AND (m::u64) \<noteq> 0) = bit m i"
  by (simp add: and.commute and_exp_eq_0_iff_not_bit)

lemma bit_low_mask: "i < N \<Longrightarrow> bit ((m::u64) AND (2 ^ N - 1)) i = bit m i"
  by (auto simp: mask_eq_exp_minus_1[symmetric] bit_simps dest: bit_imp_possible_bit)

lemma VerifySignature_loop_mask:
  "VerifySignature_loop keys m i pk nn =
     VerifySignature_loop keys (m AND (2 ^ length keys - 1)) i pk nn"
proof (induction keys m i pk nn rule: VerifySignature_loop.induct)
  case (1 keys m i pk nn)
  note L = VerifySignature_loop.simps [of keys m i pk nn]
  note R = VerifySignature_loop.simps [of keys "m AND (2 ^ length keys - 1)" i pk nn]
  show ?case
  proof (cases "i < length keys")
    case True
    then have b: "(push_bit i 1 AND (m AND (2 ^ length keys - 1)) \<noteq> 0) =
        (push_bit i 1 AND m \<noteq> 0)"
      by (simp only: signer_bit bit_low_mask)
    show ?thesis
    proof (cases "push_bit i 1 AND m \<noteq> 0")
      case s: True
      with True b have "push_bit i 1 AND (m AND (2 ^ length keys - 1)) \<noteq> 0" by blast
      with True s show ?thesis
        unfolding L R using "1.IH"(1) [OF True s] by simp
    next
      case s: False
      with True b have "\<not> push_bit i 1 AND (m AND (2 ^ length keys - 1)) \<noteq> 0" by blast
      with True s show ?thesis
        unfolding L R using "1.IH"(2) [OF True s] by simp
    qed
  next
    case False
    then show ?thesis
      unfolding L R by simp
  qed
qed

text \<open>
  C1, as the code has it. \<open>VerifySignature\<close> reads the bits of the signers mask below
  \<open>N\<close>, the number of keys of the keyset, and no other: its result is the same for the
  mask and for the mask with every bit from \<open>N\<close> on cleared. Bits from \<open>N\<close> on are
  ignored, not required to be 0.
\<close>

theorem VerifySignature_ignores_high_bits:
  "VerifySignature bls keyset signersMask data sig =
     VerifySignature bls keyset
       (signersMask AND (push_bit (length (PubKeys keyset)) 1 - 1)) data sig"
  unfolding VerifySignature_def push_bit_of_1
  by (subst VerifySignature_loop_mask) (rule refl)

section \<open>The signed Redis cache\<close>

text \<open>
  C2, as the code has it. When the base store's \<open>Put\<close> succeeds,
  \<open>RedisStorageService.Put\<close> returns what the Redis SET returns: \<open>nil\<close> when the SET
  succeeds, and the SET's error when it fails.
\<close>

theorem Put_result:
  assumes "fst (base_Put (rs_baseStorageService rs) w val timeout) = None"
  shows "fst (Put mac hs rs w val timeout) =
           fst (client_Set (rs_client rs)
                  (snd (base_Put (rs_baseStorageService rs) w val timeout))
                  (dastree_Hash hs val) (signMessage mac rs val)
                  (Expiration (rs_redisConfig rs)))"
  using assms by (auto simp: Put_def split: prod.splits option.splits)

theorem Put_result_witness:
  "fst (base_Put (rs_baseStorageService (demo_service demo_client_up)) () [1, 2, 3] 100) = None \<and>
   fst (Put demo_mac demo_hashes (demo_service demo_client_up) () [1, 2, 3] 100) = None"
proof -
  have b: "fst (base_Put (rs_baseStorageService (demo_service demo_client_up)) () [1, 2, 3] 100)
      = None"
    by (simp add: demo_service_def demo_base_def)
  from Put_result [OF b, of demo_mac demo_hashes] b show ?thesis
    by (simp add: demo_service_def demo_client_up_def)
qed

text \<open>
  The claim C2 fails: the base store takes the write, the Redis SET fails, and \<open>Put\<close>
  returns the error of the SET.
\<close>

theorem Put_counterexample:
  "fst (base_Put demo_base () [1, 2, 3] 100) = None \<and>
   fst (Put demo_mac demo_hashes (demo_service demo_client_down) () [1, 2, 3] 100) =
     Some (ErrExternal ''redis: connection refused'')"
  by (simp add: Put_def demo_base_def demo_service_def demo_client_down_def)

text \<open>
  C3, as the code has it. When the cache lookup misses or fails authentication and the
  base store has the value, \<open>RedisStorageService.GetByHash\<close> returns the value when the
  SET that refreshes the cache succeeds, and the SET's error, with no value, when it
  fails.
\<close>

theorem GetByHash_result:
  assumes "fst (getVerifiedData mac rs w key) = Inl e"
    and "fst (base_GetByHash (rs_baseStorageService rs)
                (snd (snd (getVerifiedData mac rs w key))) key) = Inr ret"
  shows "fst (GetByHash mac rs w key) =
           (case fst (client_Set (rs_client rs)
                        (snd (base_GetByHash (rs_baseStorageService rs)
                                (snd (snd (getVerifiedData mac rs w key))) key))
                        key (signMessage mac rs ret) (Expiration (rs_redisConfig rs))) of
              None \<Rightarrow> Inr ret
            | Some err \<Rightarrow> Inl err)"
  using assms by (auto simp: GetByHash_def split: prod.splits option.splits sum.splits)

theorem GetByHash_result_witness:
  "fst (getVerifiedData demo_mac (demo_service demo_client_up) () (demo_hash 1 [1, 2, 3])) =
     Inl (ErrExternal ''redis: nil'') \<and>
   fst (GetByHash demo_mac (demo_service demo_client_up) () (demo_hash 1 [1, 2, 3])) =
     Inr [1, 2, 3]"
proof -
  have g: "fst (getVerifiedData demo_mac (demo_service demo_client_up) () (demo_hash 1 [1, 2, 3]))
      = Inl (ErrExternal ''redis: nil'')"
    by (simp add: getVerifiedData_def demo_service_def demo_client_up_def)
  have b: "fst (base_GetByHash (rs_baseStorageService (demo_service demo_client_up))
      (snd (snd (getVerifiedData demo_mac (demo_service demo_client_up) ()
         (demo_hash 1 [1, 2, 3])))) (demo_hash 1 [1, 2, 3])) = Inr [1, 2, 3]"
    by (simp add: demo_service_def demo_base_def)
  from GetByHash_result [OF g b] g show ?thesis
    by (simp add: demo_service_def demo_client_up_def)
qed

text \<open>
  The claim C3 fails: the cache lookup fails, the base store has the value, the SET that
  refreshes the cache fails, and \<open>GetByHash\<close> returns the error of the SET.
\<close>

theorem GetByHash_counterexample:
  "fst (getVerifiedData demo_mac (demo_service demo_client_down) () (demo_hash 1 [1, 2, 3])) =
     Inl (ErrExternal ''redis: connection refused'') \<and>
   fst (base_GetByHash demo_base () (demo_hash 1 [1, 2, 3])) = Inr [1, 2, 3] \<and>
   fst (GetByHash demo_mac (demo_service demo_client_down) () (demo_hash 1 [1, 2, 3])) =
     Inl (ErrExternal ''redis: connection refused'')"
  by (simp add: GetByHash_def getVerifiedData_def demo_base_def demo_service_def
      demo_client_down_def)

section \<open>Batch recovery\<close>

text \<open>
  C10. \<open>RecoverPayloadFromDasBatch\<close> panics exactly on the sequencer messages of fewer
  than 40 bytes: a shorter message never reaches a return, and a message of at least 40
  bytes always does.
\<close>

theorem RecoverPayloadFromDasBatch_Panic_iff:
  "(RecoverPayloadFromDasBatch dp bls hs batchNum sequencerMsg dasReader s keysetFetcher
      preimages validateSeqMsg = Panic) = (length sequencerMsg < 40)"
  by (simp add: RecoverPayloadFromDasBatch_def Let_def
      split: sum.split option.split prod.split)

lemma length_demo_msg: "\<not> length (demo_msg ts c) < 40"
  by (simp add: demo_msg_def length_BigEndian_PutUint64)

lemma drop_40_demo_msg: "drop 40 (demo_msg ts c) = Serialize demo_flags demo_bls c"
  by (simp add: demo_msg_def length_BigEndian_PutUint64)

lemma timestamp_demo_msg: "BigEndian_Uint64 (take 8 (drop 8 (demo_msg ts c))) = ts"
  by (simp add: demo_msg_def length_BigEndian_PutUint64 BigEndian_Uint64_PutUint64)

lemma DeserializeDASCertFrom_demo_msg:
  "DeserializeDASCertFrom demo_flags demo_bls (drop 40 (demo_msg ts (demo_cert p t m))) =
     Inr (demo_cert p t m)"
  using DeserializeDASCertFrom_Serialize_append [OF wf_demo_cert demo_flags_distinct, of p t m "[]"]
  by (simp add: drop_40_demo_msg)

lemma DeserializeKeyset_demo:
  "DeserializeKeyset demo_bls demo_keyset_bytes v = Inr \<lparr>AssumedHonest = 1, PubKeys = [7]\<rparr>"
  by (simp add: DeserializeKeyset_def demo_keyset_bytes_def Uint64FromReader_append
      io_ReadFull_def demo_bls_def)

lemma VerifySignature_demo:
  "bit m 0 \<Longrightarrow>
   VerifySignature demo_bls \<lparr>AssumedHonest = 1, PubKeys = [7]\<rparr> m msg (demo_sign 7 msg) = None"
  by (simp add: VerifySignature_def VerifySignature_loop.simps demo_bls_def
      bit_iff_and_push_bit_not_eq_0 and.commute)

lemma VerifySignature_demo_no_signer:
  "\<not> bit m 0 \<Longrightarrow>
   VerifySignature demo_bls \<lparr>AssumedHonest = 1, PubKeys = [7]\<rparr> m msg sg = Some ErrNotEnoughSigners"
  by (simp add: VerifySignature_def VerifySignature_loop.simps demo_bls_def
      bit_iff_and_push_bit_not_eq_0 and.commute)

lemma SerializeSignableFields_demo:
  "SerializeSignableFields (demo_cert p t m) = demo_hash 1 p @ BigEndian_PutUint64 t @ [1]"
  by (simp add: SerializeSignableFields_def demo_cert_def)

lemma getByHash_demo:
  "getByHash demo_hashes (demo_reader [(demo_hash 1 p, p)]) 1 () (demo_hash 1 p) =
     (Inr p, [ReaderGetByHash (demo_hash 1 p)], ())"
  by (simp add: getByHash_def demo_hashes_def demo_reader_def)

lemma demo_cert_fields:
  "Version (demo_cert p t m) = 1"
  "KeysetHash (demo_cert p t m) = demo_hash 1 demo_keyset_bytes"
  "DataHash (demo_cert p t m) = demo_hash 1 p"
  "Timeout (demo_cert p t m) = t"
  "SignersMask (demo_cert p t m) = m"
  "Sig (demo_cert p t m) = demo_sign 7 (demo_hash 1 p @ BigEndian_PutUint64 t @ [1])"
  by (simp_all add: demo_cert_def)

lemma byte_2_le_1: "\<not> (2::byte) \<le> 1"
  by (simp add: word_le_nat_alt)

lemma demo_recovery_accept:
  assumes m: "bit m 0" and t: "\<not> t < ts + MinLifetimeSecondsForDataAvailabilityCert"
  shows "RecoverPayloadFromDasBatch demo_flags demo_bls demo_hashes bn
           (demo_msg ts (demo_cert p t m)) (demo_reader [(demo_hash 1 p, p)]) ()
           (demo_fetcher [(demo_hash 1 demo_keyset_bytes, demo_keyset_bytes)]) None v =
         Returns \<lparr>ret_payload = Some p, ret_preimages = None, ret_err = None,
                  events = [ReaderGetByHash (demo_hash 1 p)], reader_state = (),
                  preimages_mem = None\<rparr>"
proof -
  show ?thesis
    using m t
    by (simp add: RecoverPayloadFromDasBatch_def length_demo_msg DeserializeDASCertFrom_demo_msg
        demo_cert_fields demo_fetcher_def DeserializeKeyset_demo SerializeSignableFields_demo
        VerifySignature_demo timestamp_demo_msg getByHash_demo byte_2_le_1)
qed

lemma no_wrap_le:
  assumes "unat (ts::u64) + 604800 < 2 ^ 64"
  shows "(t < ts + MinLifetimeSecondsForDataAvailabilityCert) = (unat t < unat ts + 604800)"
proof -
  have "unat (ts + 604800) = unat ts + 604800"
    using assms unat_add_lem [of ts "604800::u64"] by simp
  then show ?thesis
    by (simp add: MinLifetimeSecondsForDataAvailabilityCert_def word_less_nat_alt)
qed

lemma accepted_passes_check:
  assumes "RecoverPayloadFromDasBatch dp bls hs batchNum sequencerMsg dasReader s keysetFetcher
             preimages validateSeqMsg = Returns r"
    and "ret_payload r = Some payload"
  shows "\<exists>cert. DeserializeDASCertFrom dp bls (drop 40 sequencerMsg) = Inr cert \<and>
           \<not> Timeout cert < BigEndian_Uint64 (take 8 (drop 8 sequencerMsg)) +
               MinLifetimeSecondsForDataAvailabilityCert"
  using assms
  by (auto simp: RecoverPayloadFromDasBatch_def Let_def
      split: if_splits sum.splits option.splits prod.splits)

text \<open>
  The claim C1 fails: a certificate whose signers mask has bit 63 set is accepted with a
  keyset of one key. Key 0 signs, the mask is \<open>2 ^ 63 + 1\<close>, and recovery returns the
  payload.
\<close>

theorem signers_mask_counterexample:
  "RecoverPayloadFromDasBatch demo_flags demo_bls demo_hashes 0
     (demo_msg 0 (demo_cert [1, 2, 4] 604800 0x8000000000000001))
     (demo_reader [(demo_hash 1 [1, 2, 4], [1, 2, 4])]) ()
     (demo_fetcher [(demo_hash 1 demo_keyset_bytes, demo_keyset_bytes)]) None True =
     Returns \<lparr>ret_payload = Some [1, 2, 4], ret_preimages = None, ret_err = None,
              events = [ReaderGetByHash (demo_hash 1 [1, 2, 4])], reader_state = (),
              preimages_mem = None\<rparr> \<and>
   DeserializeKeyset demo_bls demo_keyset_bytes False =
     Inr \<lparr>AssumedHonest = 1, PubKeys = [7]\<rparr> \<and>
   SignersMask (demo_cert [1, 2, 4] 604800 0x8000000000000001) AND
     NOT (push_bit (length [7::byte]) 1 - 1) \<noteq> 0"
proof -
  have t: "\<not> (604800::u64) < 0 + MinLifetimeSecondsForDataAvailabilityCert"
    by (simp add: MinLifetimeSecondsForDataAvailabilityCert_def)
  have m: "bit (0x8000000000000001::u64) 0"
    by simp
  have h: "SignersMask (demo_cert [1, 2, 4] 604800 0x8000000000000001) AND
      NOT (push_bit (length [7::byte]) 1 - 1) \<noteq> 0"
    by (simp add: demo_cert_fields)
  from demo_recovery_accept [OF m t] DeserializeKeyset_demo h show ?thesis
    by blast
qed

text \<open>
  C4, as the code has it. Let \<open>max_timestamp + 604800\<close> be below \<open>2 ^ 64\<close>. Then the
  timeout of every certificate that recovery accepts is at least
  \<open>max_timestamp + 604800\<close>; and when recovery reaches the timeout check (the message
  has 40 bytes or more, the certificate parses with a version below 2, the keyset is
  fetched and parses, the signature verifies) with a smaller timeout, it returns
  \<open>(nil, nil, nil)\<close> and logs that the certificate expires too soon.
\<close>

theorem RecoverPayloadFromDasBatch_timeout:
  assumes nowrap: "unat (BigEndian_Uint64 (take 8 (drop 8 sequencerMsg))) + 604800 < 2 ^ 64"
  shows
    "(RecoverPayloadFromDasBatch dp bls hs batchNum sequencerMsg dasReader s keysetFetcher
        preimages validateSeqMsg = Returns r \<and> ret_payload r = Some payload \<longrightarrow>
      (\<exists>cert. DeserializeDASCertFrom dp bls (drop 40 sequencerMsg) = Inr cert \<and>
         unat (BigEndian_Uint64 (take 8 (drop 8 sequencerMsg))) + 604800 \<le> unat (Timeout cert))) \<and>
     (40 \<le> length sequencerMsg \<and>
      DeserializeDASCertFrom dp bls (drop 40 sequencerMsg) = Inr c \<and> Version c < 2 \<and>
      keysetFetcher (KeysetHash c) = Inr keysetPreimage \<and>
      DeserializeKeyset bls keysetPreimage (\<not> validateSeqMsg) = Inr keyset \<and>
      VerifySignature bls keyset (SignersMask c) (SerializeSignableFields c) (Sig c) = None \<and>
      unat (Timeout c) < unat (BigEndian_Uint64 (take 8 (drop 8 sequencerMsg))) + 604800 \<longrightarrow>
      (\<exists>r'. RecoverPayloadFromDasBatch dp bls hs batchNum sequencerMsg dasReader s keysetFetcher
               preimages validateSeqMsg = Returns r' \<and>
         ret_payload r' = None \<and> ret_preimages r' = None \<and> ret_err r' = None \<and>
         events r' = [LogError ''Data availability cert expires too soon'']))"
proof (intro conjI impI)
  assume acc: "RecoverPayloadFromDasBatch dp bls hs batchNum sequencerMsg dasReader s
        keysetFetcher preimages validateSeqMsg = Returns r \<and> ret_payload r = Some payload"
  from accepted_passes_check [OF conjunct1 [OF acc] conjunct2 [OF acc]]
  obtain cert where "DeserializeDASCertFrom dp bls (drop 40 sequencerMsg) = Inr cert"
    and "\<not> Timeout cert < BigEndian_Uint64 (take 8 (drop 8 sequencerMsg)) +
               MinLifetimeSecondsForDataAvailabilityCert"
    by blast
  then show "\<exists>cert. DeserializeDASCertFrom dp bls (drop 40 sequencerMsg) = Inr cert \<and>
         unat (BigEndian_Uint64 (take 8 (drop 8 sequencerMsg))) + 604800 \<le> unat (Timeout cert)"
    using no_wrap_le [OF nowrap] by auto
next
  assume a: "40 \<le> length sequencerMsg \<and>
      DeserializeDASCertFrom dp bls (drop 40 sequencerMsg) = Inr c \<and> Version c < 2 \<and>
      keysetFetcher (KeysetHash c) = Inr keysetPreimage \<and>
      DeserializeKeyset bls keysetPreimage (\<not> validateSeqMsg) = Inr keyset \<and>
      VerifySignature bls keyset (SignersMask c) (SerializeSignableFields c) (Sig c) = None \<and>
      unat (Timeout c) < unat (BigEndian_Uint64 (take 8 (drop 8 sequencerMsg))) + 604800"
  then have "Timeout c < BigEndian_Uint64 (take 8 (drop 8 sequencerMsg)) +
               MinLifetimeSecondsForDataAvailabilityCert"
    using no_wrap_le [OF nowrap] by simp
  with a show "\<exists>r'. RecoverPayloadFromDasBatch dp bls hs batchNum sequencerMsg dasReader s
               keysetFetcher preimages validateSeqMsg = Returns r' \<and>
         ret_payload r' = None \<and> ret_preimages r' = None \<and> ret_err r' = None \<and>
         events r' = [LogError ''Data availability cert expires too soon'']"
    by (simp add: RecoverPayloadFromDasBatch_def Let_def linorder_not_le)
qed

text \<open>
  The claim C4 fails twice. With \<open>max_timestamp = 2 ^ 64 - 1\<close> the sum wraps around to
  604799 in \<open>uint64\<close>, and a certificate with timeout 604799 is accepted. And a
  certificate with timeout 0 whose keyset cannot be fetched does not give
  \<open>(nil, nil, nil)\<close>: recovery returns the error of the fetch before it looks at the
  timeout.
\<close>

theorem RecoverPayloadFromDasBatch_timeout_counterexample:
  "RecoverPayloadFromDasBatch demo_flags demo_bls demo_hashes 0
     (demo_msg 0xFFFFFFFFFFFFFFFF (demo_cert [1, 2, 4] 604799 1))
     (demo_reader [(demo_hash 1 [1, 2, 4], [1, 2, 4])]) ()
     (demo_fetcher [(demo_hash 1 demo_keyset_bytes, demo_keyset_bytes)]) None True =
     Returns \<lparr>ret_payload = Some [1, 2, 4], ret_preimages = None, ret_err = None,
              events = [ReaderGetByHash (demo_hash 1 [1, 2, 4])], reader_state = (),
              preimages_mem = None\<rparr> \<and>
   DeserializeDASCertFrom demo_flags demo_bls
     (drop 40 (demo_msg 0xFFFFFFFFFFFFFFFF (demo_cert [1, 2, 4] 604799 1))) =
     Inr (demo_cert [1, 2, 4] 604799 1) \<and>
   unat (Timeout (demo_cert [1, 2, 4] 604799 1)) <
     unat (BigEndian_Uint64
             (take 8 (drop 8 (demo_msg 0xFFFFFFFFFFFFFFFF (demo_cert [1, 2, 4] 604799 1))))) +
     604800 \<and>
   RecoverPayloadFromDasBatch demo_flags demo_bls demo_hashes 0
     (demo_msg 0 (demo_cert [1, 2, 4] 0 1))
     (demo_reader [(demo_hash 1 [1, 2, 4], [1, 2, 4])]) () (demo_fetcher []) None True =
     Returns \<lparr>ret_payload = None, ret_preimages = None,
              ret_err = Some (ErrExternal ''not found''),
              events = [LogError ''Could not get keyset''], reader_state = (),
              preimages_mem = None\<rparr> \<and>
   unat (Timeout (demo_cert [1, 2, 4] 0 1)) <
     unat (BigEndian_Uint64 (take 8 (drop 8 (demo_msg 0 (demo_cert [1, 2, 4] 0 1))))) + 604800"
proof -
  have t: "\<not> (604799::u64) < 0xFFFFFFFFFFFFFFFF + MinLifetimeSecondsForDataAvailabilityCert"
    by (simp add: MinLifetimeSecondsForDataAvailabilityCert_def)
  have m: "bit (1::u64) 0"
    by simp
  have u: "unat (Timeout (demo_cert [1, 2, 4] 604799 1)) <
     unat (BigEndian_Uint64
             (take 8 (drop 8 (demo_msg 0xFFFFFFFFFFFFFFFF (demo_cert [1, 2, 4] 604799 1))))) +
     604800"
    by (simp add: timestamp_demo_msg demo_cert_fields)
  have k: "RecoverPayloadFromDasBatch demo_flags demo_bls demo_hashes 0
     (demo_msg 0 (demo_cert [1, 2, 4] 0 1))
     (demo_reader [(demo_hash 1 [1, 2, 4], [1, 2, 4])]) () (demo_fetcher []) None True =
     Returns \<lparr>ret_payload = None, ret_preimages = None,
              ret_err = Some (ErrExternal ''not found''),
              events = [LogError ''Could not get keyset''], reader_state = (),
              preimages_mem = None\<rparr>"
    by (simp add: RecoverPayloadFromDasBatch_def length_demo_msg DeserializeDASCertFrom_demo_msg
        demo_fetcher_def demo_cert_fields byte_2_le_1)
  have u0: "unat (Timeout (demo_cert [1, 2, 4] 0 1)) <
     unat (BigEndian_Uint64 (take 8 (drop 8 (demo_msg 0 (demo_cert [1, 2, 4] 0 1))))) + 604800"
    by (simp add: timestamp_demo_msg demo_cert_fields)
  from demo_recovery_accept [OF m t] DeserializeDASCertFrom_demo_msg u k u0 show ?thesis
    by blast
qed

theorem RecoverPayloadFromDasBatch_timeout_witness:
  "(\<exists>cert. DeserializeDASCertFrom demo_flags demo_bls
             (drop 40 (demo_msg 0 (demo_cert [1, 2, 4] 604800 1))) = Inr cert \<and>
      unat (BigEndian_Uint64 (take 8 (drop 8 (demo_msg 0 (demo_cert [1, 2, 4] 604800 1))))) +
        604800 \<le> unat (Timeout cert)) \<and>
   (\<exists>r'. RecoverPayloadFromDasBatch demo_flags demo_bls demo_hashes 0
            (demo_msg 0 (demo_cert [1, 2, 4] 604799 1))
            (demo_reader [(demo_hash 1 [1, 2, 4], [1, 2, 4])]) ()
            (demo_fetcher [(demo_hash 1 demo_keyset_bytes, demo_keyset_bytes)]) None True =
          Returns r' \<and>
      ret_payload r' = None \<and> ret_preimages r' = None \<and> ret_err r' = None \<and>
      events r' = [LogError ''Data availability cert expires too soon''])"
proof -
  have nw1: "unat (BigEndian_Uint64 (take 8 (drop 8 (demo_msg 0 (demo_cert [1, 2, 4] 604800 1)))))
      + 604800 < 2 ^ 64"
    by (simp add: timestamp_demo_msg)
  have nw2: "unat (BigEndian_Uint64 (take 8 (drop 8 (demo_msg 0 (demo_cert [1, 2, 4] 604799 1)))))
      + 604800 < 2 ^ 64"
    by (simp add: timestamp_demo_msg)
  have t: "\<not> (604800::u64) < 0 + MinLifetimeSecondsForDataAvailabilityCert"
    by (simp add: MinLifetimeSecondsForDataAvailabilityCert_def)
  have m: "bit (1::u64) 0"
    by simp
  note acc = demo_recovery_accept [OF m t, of 0 "[1, 2, 4]" True]
  have pl: "ret_payload \<lparr>ret_payload = Some [1, 2, 4], ret_preimages = None, ret_err = None,
                  events = [ReaderGetByHash (demo_hash 1 [1, 2, 4])], reader_state = (),
                  preimages_mem = None\<rparr> = Some [1, 2, 4]"
    by simp
  have one: "\<exists>cert. DeserializeDASCertFrom demo_flags demo_bls
             (drop 40 (demo_msg 0 (demo_cert [1, 2, 4] 604800 1))) = Inr cert \<and>
      unat (BigEndian_Uint64 (take 8 (drop 8 (demo_msg 0 (demo_cert [1, 2, 4] 604800 1))))) +
        604800 \<le> unat (Timeout cert)"
    by (rule RecoverPayloadFromDasBatch_timeout [OF nw1, THEN conjunct1, THEN mp,
          OF conjI [OF acc pl]])
  have prem: "40 \<le> length (demo_msg 0 (demo_cert [1, 2, 4] 604799 1)) \<and>
      DeserializeDASCertFrom demo_flags demo_bls
        (drop 40 (demo_msg 0 (demo_cert [1, 2, 4] 604799 1))) = Inr (demo_cert [1, 2, 4] 604799 1) \<and>
      Version (demo_cert [1, 2, 4] 604799 1) < 2 \<and>
      demo_fetcher [(demo_hash 1 demo_keyset_bytes, demo_keyset_bytes)]
        (KeysetHash (demo_cert [1, 2, 4] 604799 1)) = Inr demo_keyset_bytes \<and>
      DeserializeKeyset demo_bls demo_keyset_bytes (\<not> True) =
        Inr \<lparr>AssumedHonest = 1, PubKeys = [7]\<rparr> \<and>
      VerifySignature demo_bls \<lparr>AssumedHonest = 1, PubKeys = [7]\<rparr>
        (SignersMask (demo_cert [1, 2, 4] 604799 1))
        (SerializeSignableFields (demo_cert [1, 2, 4] 604799 1))
        (Sig (demo_cert [1, 2, 4] 604799 1)) = None \<and>
      unat (Timeout (demo_cert [1, 2, 4] 604799 1)) <
        unat (BigEndian_Uint64 (take 8 (drop 8 (demo_msg 0 (demo_cert [1, 2, 4] 604799 1))))) +
        604800"
    using length_demo_msg [of 0 "demo_cert [1, 2, 4] 604799 1"]
    by (simp add: DeserializeDASCertFrom_demo_msg demo_cert_fields demo_fetcher_def
        DeserializeKeyset_demo SerializeSignableFields_demo VerifySignature_demo
        timestamp_demo_msg word_less_nat_alt)
  have two: "\<exists>r'. RecoverPayloadFromDasBatch demo_flags demo_bls demo_hashes 0
            (demo_msg 0 (demo_cert [1, 2, 4] 604799 1))
            (demo_reader [(demo_hash 1 [1, 2, 4], [1, 2, 4])]) ()
            (demo_fetcher [(demo_hash 1 demo_keyset_bytes, demo_keyset_bytes)]) None True =
          Returns r' \<and>
      ret_payload r' = None \<and> ret_preimages r' = None \<and> ret_err r' = None \<and>
      events r' = [LogError ''Data availability cert expires too soon'']"
    by (rule RecoverPayloadFromDasBatch_timeout
          [where dp = demo_flags and bls = demo_bls and hs = demo_hashes and batchNum = 0
             and sequencerMsg = "demo_msg 0 (demo_cert [1, 2, 4] 604799 1)"
             and dasReader = "demo_reader [(demo_hash 1 [1, 2, 4], [1, 2, 4])]" and s = "()"
             and keysetFetcher = "demo_fetcher [(demo_hash 1 demo_keyset_bytes, demo_keyset_bytes)]"
             and preimages = None and validateSeqMsg = True
             and c = "demo_cert [1, 2, 4] 604799 1" and keysetPreimage = demo_keyset_bytes
             and keyset = "\<lparr>AssumedHonest = 1, PubKeys = [7]\<rparr>",
           OF nw2, THEN conjunct2, THEN mp, OF prem])
  from one two show ?thesis
    by (rule conjI)
qed






section \<open>Construction of the signed Redis cache\<close>

text \<open>
  C8, on the code. With a valid URL, the key configuration \<open>01\<close>, one byte of hex,
  constructs a cache whose signing key is that byte padded to 32 bytes; and the key
  configuration of 64 hex zeros, which is 32 bytes of hex, is refused.
\<close>

theorem NewRedisStorageService_key_check:
  "(case NewRedisStorageService (\<lambda>url. Inr demo_client_up) (demo_config ''01'') demo_base of
      Inl err \<Rightarrow> None
    | Inr rs \<Rightarrow> Some (rs_signingKey rs)) = Some (replicate 31 0 @ [1]) \<and>
   NewRedisStorageService (\<lambda>url. Inr demo_client_up)
     (demo_config ''0000000000000000000000000000000000000000000000000000000000000000'')
     demo_base = Inl ErrSigningKeyNot32BytesOfHex"
proof -
  have h1: "HexToHash ''01'' = replicate 31 0 @ [1]"
    by code_simp
  have h2: "HexToHash ''0000000000000000000000000000000000000000000000000000000000000000'' =
      replicate 32 0"
    by code_simp
  have ne: "replicate 31 0 @ [1] \<noteq> replicate 32 (0::byte)"
    by code_simp
  show ?thesis
    by (simp add: NewRedisStorageService_def demo_config_def h1 h2 ne del: replicate_eq_replicate)
qed

end
